theory Spec2Isabelle
  imports Main
begin

section \<open>The wallet scanner: data\<close>

text \<open>
  The scan worker of \<^verbatim>\<open>walletScanner.js\<close> consumes one message of the scan queue at a
  time. Strings (keys, hashes, addresses, queue names) are \<open>string\<close>.
\<close>

subsection \<open>Numbers\<close>

text \<open>
  A JavaScript number is a double. The numbers that the worker reads (heights, amounts, the
  configured confirmation depth and batch size) are integers, and a number is held here as
  the integer it is: an \<open>int\<close>, with the positive and the negative infinity held as
  \<open>2 ^ 1024\<close> and its negation, the first integers past the doubles on either side.
  Comparisons of numbers are then comparisons of integers. Sums and differences are the
  code's: the exact result rounded to the nearest double, to the even one of two
  equally near, and to an infinity from \<open>2 ^ 1024\<close> on.
\<close>

text \<open>
  The doubles that are integers are the integers below \<open>2 ^ 53\<close> in magnitude and those
  of the form \<open>q * 2 ^ e\<close> with \<open>2 ^ 52 \<le> q < 2 ^ 53\<close>. For \<open>m\<close> from \<open>2 ^ 53\<close> on,
  \<open>ulp_exponent m\<close> is the \<open>e\<close> of the doubles around \<open>m\<close>.
\<close>

function ulp_exponent :: "int \<Rightarrow> nat" where
  "ulp_exponent m = (if m < 2 ^ 53 then 0 else Suc (ulp_exponent (m div 2)))"
  by pat_completeness auto
termination
  by (relation "measure nat") auto

definition round_to_double :: "int \<Rightarrow> int" where
  "round_to_double x =
     (let m = \<bar>x\<bar> in
      if m < 2 ^ 53 then x
      else
        let e = ulp_exponent m;
            q = m div 2 ^ e;
            r = m mod 2 ^ e;
            q' = (if 2 * r > 2 ^ e \<or> (2 * r = 2 ^ e \<and> odd q) then q + 1 else q)
        in sgn x * (q' * 2 ^ e))"

definition js_infinity :: int where
  "js_infinity = 2 ^ 1024"

definition overflow :: "int \<Rightarrow> int" where
  "overflow x =
     (if x \<ge> js_infinity then js_infinity
      else if x \<le> - js_infinity then - js_infinity
      else x)"

text \<open>
  \<^verbatim>\<open>a + b\<close> and \<^verbatim>\<open>a - b\<close> on numbers. An infinite operand is the result; the sum of the
  two opposite infinities, which is not a number in the code, does not arise in the handler,
  where the fields read are finite and an infinite total is only ever added a finite amount.
\<close>

definition js_add :: "int \<Rightarrow> int \<Rightarrow> int" where
  "js_add a b =
     (if \<bar>a\<bar> \<ge> js_infinity then overflow a
      else if \<bar>b\<bar> \<ge> js_infinity then overflow b
      else overflow (round_to_double (a + b)))"

definition js_sub :: "int \<Rightarrow> int \<Rightarrow> int" where
  "js_sub a b = js_add a (- b)"

subsection \<open>The message payload\<close>

record wallet_view =
  view_privateKey :: string

record wallet_spend =
  spend_publicKey :: string
  spend_privateKey :: string

record wallet =
  address :: string
  view :: wallet_view
  spend :: wallet_spend

text \<open>
  \<^verbatim>\<open>payload.request\<close>: the worker reads its \<^verbatim>\<open>amount\<close> only; whatever else the
  caller put there is the extension of the record.
\<close>

record request =
  request_amount :: int

text \<open>
  The object the worker builds for every transaction output (lines 123-128). The outputs the
  matcher returns are such objects with the matcher's own annotations, the extension
  \<open>'m\<close> of the record; the worker reads their \<^verbatim>\<open>amount\<close>.
\<close>

record txn_output =
  index :: int
  globalIndex :: int
  amount :: int
  key :: string

record ('r, 'm) payload =
  wallet :: wallet
  request :: "'r request_scheme"
  scanHeight :: int
  maxHeight :: int
  funds :: "'m txn_output_scheme list option"

text \<open>
  A delivery of the broker: \<^verbatim>\<open>JSON.parse(message.content.toString())\<close> is the payload.
\<close>

record ('r, 'm) message =
  deliveryTag :: nat
  content :: "('r, 'm) payload"

subsection \<open>Chain data\<close>

record header =
  height :: int
  hash :: string

record raw_output =
  outputIndex :: int
  raw_globalIndex :: int
  raw_amount :: int
  raw_key :: string

record transaction =
  publicKey :: string
  outputs :: "raw_output list"

record block =
  block_height :: int
  transactions :: "transaction list"

subsection \<open>Configuration and collaborators\<close>

record queues =
  scan :: string
  send :: string
  complete :: string

record config =
  queues :: queues
  blockHeaderUrl :: string
  syncUrl :: string
  maximumScanBlocks :: int
  confirmationsRequired :: int

text \<open>
  What \<^verbatim>\<open>blockHeaderUrl\<close> is extended with: \<^verbatim>\<open>'top'\<close> or the scan height.
\<close>

datatype header_path = Top | AtHeight int

text \<open>
  The blockchain service, as the responses it gives to the worker's requests; \<open>None\<close> is a
  request that rejects (the \<^verbatim>\<open>catch\<close> blocks of lines 82 and 100).
\<close>

record chain_service =
  getHeader :: "string \<Rightarrow> header_path \<Rightarrow> header option"
  postSync :: "string \<Rightarrow> string list \<Rightarrow> int \<Rightarrow> block list option"

text \<open>
  \<^verbatim>\<open>cryptoUtils.scanTransactionOutputs(publicKey, outputs, viewPrivate, spendPublic,
  spendPrivate)\<close> of the library \<^verbatim>\<open>turtlecoin-utils\<close>, a parameter of the model.
\<close>

type_synonym 'm matcher =
  "string \<Rightarrow> txn_output list \<Rightarrow> string \<Rightarrow> string \<Rightarrow> string \<Rightarrow> 'm txn_output_scheme list"

text \<open>
  What a worker process has besides the configuration: its \<^verbatim>\<open>cluster.worker.id\<close> and
  the clock that \<^verbatim>\<open>log\<close> reads.
\<close>

record runtime =
  workerId :: int
  utcNow :: string

subsection \<open>Effects\<close>

text \<open>The three objects the worker serialises and publishes to the complete queue.\<close>

record 'r response =
  r_address :: string
  status :: int
  r_request :: "'r request_scheme"

datatype channel = Public | Private

datatype ('r, 'm) json =
    ResponseJson "'r response"
  | PayloadJson "('r, 'm) payload"

text \<open>The arguments of the six \<^verbatim>\<open>util.format\<close> lines that the handler logs.\<close>

datatype log_message =
    ErrorRetrievingBlockData int
  | ErrorRetrievingSyncData int string
  | InfoForwarding int int string
  | InfoAwaitingConfirmations int int string int
  | InfoLookForMore int int string
  | InfoTimedOut int string

text \<open>
  A run of the handler is the list of what it did, in order: the requests it sent to the
  blockchain service, the lines it logged (with the clock's reading), the messages it
  published (all with \<^verbatim>\<open>persistent: true\<close>) and how it settled the delivery.
\<close>

datatype ('r, 'm) effect =
    HttpGet string header_path
  | HttpPost string "string list" int
  | ConsoleLog string log_message
  | SendToQueue channel string "('r, 'm) json"
  | Ack "('r, 'm) message"
  | Nack "('r, 'm) message"

section \<open>The wallet scanner: the handler\<close>

definition log :: "runtime \<Rightarrow> log_message \<Rightarrow> ('r, 'm) effect" where
  "log rt message = ConsoleLog (utcNow rt) message"

subsection \<open>The matching loops (lines 106-146)\<close>

record 'm scan_state =
  walletOutputs :: "'m txn_output_scheme list"
  totalAmount :: int
  fundsFoundInBlock :: int

definition reform :: "raw_output \<Rightarrow> txn_output" where
  "reform out = \<lparr>index = outputIndex out, globalIndex = raw_globalIndex out,
     amount = raw_amount out, key = raw_key out\<rparr>"

text \<open>The loop over \<^verbatim>\<open>l\<close> (lines 141-144).\<close>

fun tally :: "'m txn_output_scheme list \<Rightarrow> 'm scan_state \<Rightarrow> 'm scan_state" where
  "tally [] st = st"
| "tally (out # rest) st =
     tally rest (st\<lparr>totalAmount := js_add (totalAmount st) (amount out),
                     walletOutputs := walletOutputs st @ [out]\<rparr>)"

definition scanTransactionOutputs ::
  "'m matcher \<Rightarrow> wallet \<Rightarrow> transaction \<Rightarrow> 'm txn_output_scheme list" where
  "scanTransactionOutputs matcher w tx =
     matcher (publicKey tx) (map reform (outputs tx))
       (view_privateKey (view w)) (spend_publicKey (spend w)) (spend_privateKey (spend w))"

text \<open>The loop over \<^verbatim>\<open>j\<close> (lines 116-145), in the block of height \<open>h\<close>.\<close>

fun scan_transactions ::
  "'m matcher \<Rightarrow> wallet \<Rightarrow> int \<Rightarrow> transaction list \<Rightarrow> 'm scan_state \<Rightarrow> 'm scan_state" where
  "scan_transactions matcher w h [] st = st"
| "scan_transactions matcher w h (tx # rest) st =
     (let found = scanTransactionOutputs matcher w tx;
          st1 = (if found \<noteq> [] \<and> h > fundsFoundInBlock st
                 then st\<lparr>fundsFoundInBlock := h\<rparr> else st)
      in scan_transactions matcher w h rest (tally found st1))"

text \<open>The loop over \<^verbatim>\<open>i\<close> (lines 112-146).\<close>

fun scan_blocks ::
  "'m matcher \<Rightarrow> wallet \<Rightarrow> block list \<Rightarrow> 'm scan_state \<Rightarrow> 'm scan_state" where
  "scan_blocks matcher w [] st = st"
| "scan_blocks matcher w (b # rest) st =
     scan_blocks matcher w rest
       (scan_transactions matcher w (block_height b) (transactions b) st)"

definition scan_start :: "'m scan_state" where
  "scan_start = \<lparr>walletOutputs = [], totalAmount = 0, fundsFoundInBlock = 0\<rparr>"

definition scan_batch :: "'m matcher \<Rightarrow> wallet \<Rightarrow> block list \<Rightarrow> 'm scan_state" where
  "scan_batch matcher w syncData = scan_blocks matcher w syncData scan_start"

subsection \<open>The decision (lines 148-245)\<close>

definition confirmations :: "header \<Rightarrow> 'm scan_state \<Rightarrow> int" where
  "confirmations topBlock st = js_sub (height topBlock) (fundsFoundInBlock st)"

definition decide ::
  "config \<Rightarrow> runtime \<Rightarrow> ('r, 'm) message \<Rightarrow> header \<Rightarrow> 'm scan_state \<Rightarrow> ('r, 'm) effect list" where
  "decide cfg rt message topBlock st =
     (let p = content message in
      if walletOutputs st \<noteq> [] then
        if totalAmount st \<ge> request_amount (request p)
           \<and> confirmations topBlock st \<ge> confirmationsRequired cfg
        then
          [SendToQueue Public (complete (queues cfg))
             (ResponseJson \<lparr>r_address = address (wallet p), status = 100, r_request = request p\<rparr>),
           SendToQueue Private (send (queues cfg))
             (PayloadJson (p\<lparr>funds := Some (walletOutputs st)\<rparr>)),
           log rt (InfoForwarding (workerId rt) (totalAmount st) (address (wallet p))),
           Ack message]
        else if totalAmount st \<ge> request_amount (request p) then
          [log rt (InfoAwaitingConfirmations (workerId rt) (totalAmount st) (address (wallet p))
                    (js_sub (confirmationsRequired cfg) (confirmations topBlock st))),
           Nack message]
        else if height topBlock > maxHeight p
                \<and> confirmations topBlock st \<ge> confirmationsRequired cfg
        then
          [SendToQueue Public (complete (queues cfg))
             (ResponseJson \<lparr>r_address = address (wallet p), status = 206, r_request = request p\<rparr>),
           SendToQueue Private (send (queues cfg))
             (PayloadJson (p\<lparr>funds := Some (walletOutputs st)\<rparr>)),
           log rt (InfoForwarding (workerId rt) (totalAmount st) (address (wallet p))),
           Ack message]
        else
          [log rt (InfoLookForMore (workerId rt) (totalAmount st) (address (wallet p))),
           Nack message]
      else if height topBlock > maxHeight p \<and> walletOutputs st = [] then
        [SendToQueue Public (complete (queues cfg))
           (ResponseJson \<lparr>r_address = address (wallet p), status = 408, r_request = request p\<rparr>),
         log rt (InfoTimedOut (workerId rt) (address (wallet p))),
         Ack message]
      else
        [Nack message])"

subsection \<open>The consumer of the scan queue (lines 72-247)\<close>

text \<open>The \<^verbatim>\<open>blockCount\<close> of the sync request (line 99).\<close>

definition blockCount :: "config \<Rightarrow> int" where
  "blockCount cfg = js_add (maximumScanBlocks cfg) 1"

definition handler ::
  "config \<Rightarrow> runtime \<Rightarrow> chain_service \<Rightarrow> 'm matcher \<Rightarrow> ('r, 'm) message option
     \<Rightarrow> ('r, 'm) effect list" where
  "handler cfg rt svc matcher delivery =
     (case delivery of
        None \<Rightarrow> []
      | Some message \<Rightarrow>
          (let p = content message in
           case getHeader svc (blockHeaderUrl cfg) Top of
             None \<Rightarrow>
               [HttpGet (blockHeaderUrl cfg) Top,
                log rt (ErrorRetrievingBlockData (workerId rt)),
                Nack message]
           | Some topBlock \<Rightarrow>
               (case getHeader svc (blockHeaderUrl cfg) (AtHeight (scanHeight p)) of
                  None \<Rightarrow>
                    [HttpGet (blockHeaderUrl cfg) Top,
                     HttpGet (blockHeaderUrl cfg) (AtHeight (scanHeight p)),
                     log rt (ErrorRetrievingBlockData (workerId rt)),
                     Nack message]
                | Some startBlock \<Rightarrow>
                    if height topBlock = scanHeight p then
                      [HttpGet (blockHeaderUrl cfg) Top,
                       HttpGet (blockHeaderUrl cfg) (AtHeight (scanHeight p)),
                       Nack message]
                    else
                      (case postSync svc (syncUrl cfg) [hash startBlock]
                              (blockCount cfg) of
                         None \<Rightarrow>
                           [HttpGet (blockHeaderUrl cfg) Top,
                            HttpGet (blockHeaderUrl cfg) (AtHeight (scanHeight p)),
                            HttpPost (syncUrl cfg) [hash startBlock] (blockCount cfg),
                            log rt (ErrorRetrievingSyncData (workerId rt) (address (wallet p))),
                            Nack message]
                       | Some syncData \<Rightarrow>
                           [HttpGet (blockHeaderUrl cfg) Top,
                            HttpGet (blockHeaderUrl cfg) (AtHeight (scanHeight p)),
                            HttpPost (syncUrl cfg) [hash startBlock] (blockCount cfg)]
                           @ decide cfg rt message topBlock
                               (scan_batch matcher (wallet p) syncData)))))"

section \<open>Observations of a run\<close>

text \<open>What the broker sees of a run: the messages published and the settlement.\<close>

fun is_bus_effect :: "('r, 'm) effect \<Rightarrow> bool" where
  "is_bus_effect (SendToQueue ch q body) = True"
| "is_bus_effect (Ack message) = True"
| "is_bus_effect (Nack message) = True"
| "is_bus_effect (HttpGet url path) = False"
| "is_bus_effect (HttpPost url known n) = False"
| "is_bus_effect (ConsoleLog date line) = False"

definition bus_effects :: "('r, 'm) effect list \<Rightarrow> ('r, 'm) effect list" where
  "bus_effects run = filter is_bus_effect run"

fun emission :: "('r, 'm) effect \<Rightarrow> (channel \<times> string \<times> ('r, 'm) json) option" where
  "emission (SendToQueue ch q body) = Some (ch, q, body)"
| "emission (Ack message) = None"
| "emission (Nack message) = None"
| "emission (HttpGet url path) = None"
| "emission (HttpPost url known n) = None"
| "emission (ConsoleLog date line) = None"

definition emissions :: "('r, 'm) effect list \<Rightarrow> (channel \<times> string \<times> ('r, 'm) json) list" where
  "emissions run = List.map_filter emission run"

datatype settlement = Acknowledged | NegativeAcknowledged

fun settled :: "('r, 'm) effect \<Rightarrow> settlement option" where
  "settled (Ack message) = Some Acknowledged"
| "settled (Nack message) = Some NegativeAcknowledged"
| "settled (SendToQueue ch q body) = None"
| "settled (HttpGet url path) = None"
| "settled (HttpPost url known n) = None"
| "settled (ConsoleLog date line) = None"

definition settlements :: "('r, 'm) effect list \<Rightarrow> settlement list" where
  "settlements run = List.map_filter settled run"

fun is_request :: "('r, 'm) effect \<Rightarrow> bool" where
  "is_request (HttpGet url path) = True"
| "is_request (HttpPost url known n) = True"
| "is_request (SendToQueue ch q body) = False"
| "is_request (Ack message) = False"
| "is_request (Nack message) = False"
| "is_request (ConsoleLog date line) = False"

definition requests :: "('r, 'm) effect list \<Rightarrow> ('r, 'm) effect list" where
  "requests run = filter is_request run"

section \<open>The six branches\<close>

datatype branch =
    Funded | PendingConfirmation | PartiallyFundedTimeout | PendingMore | TimedOut | PendingNone

text \<open>
  The conditions under which the chain of \<^verbatim>\<open>if\<close>s of lines 149-245 leaves through each of
  its six exits (lines 177, 183, 211, 216, 239 and 245): each is the guard of its exit with
  the negations of the guards tried before it.
\<close>

fun path_condition ::
  "branch \<Rightarrow> config \<Rightarrow> ('r, 'm) payload \<Rightarrow> header \<Rightarrow> 'm scan_state \<Rightarrow> bool" where
  "path_condition Funded cfg p topBlock st =
     (walletOutputs st \<noteq> []
      \<and> (totalAmount st \<ge> request_amount (request p)
         \<and> confirmations topBlock st \<ge> confirmationsRequired cfg))"
| "path_condition PendingConfirmation cfg p topBlock st =
     (walletOutputs st \<noteq> []
      \<and> \<not> (totalAmount st \<ge> request_amount (request p)
           \<and> confirmations topBlock st \<ge> confirmationsRequired cfg)
      \<and> totalAmount st \<ge> request_amount (request p))"
| "path_condition PartiallyFundedTimeout cfg p topBlock st =
     (walletOutputs st \<noteq> []
      \<and> \<not> (totalAmount st \<ge> request_amount (request p)
           \<and> confirmations topBlock st \<ge> confirmationsRequired cfg)
      \<and> \<not> totalAmount st \<ge> request_amount (request p)
      \<and> (height topBlock > maxHeight p
         \<and> confirmations topBlock st \<ge> confirmationsRequired cfg))"
| "path_condition PendingMore cfg p topBlock st =
     (walletOutputs st \<noteq> []
      \<and> \<not> (totalAmount st \<ge> request_amount (request p)
           \<and> confirmations topBlock st \<ge> confirmationsRequired cfg)
      \<and> \<not> totalAmount st \<ge> request_amount (request p)
      \<and> \<not> (height topBlock > maxHeight p
           \<and> confirmations topBlock st \<ge> confirmationsRequired cfg))"
| "path_condition TimedOut cfg p topBlock st =
     (\<not> walletOutputs st \<noteq> []
      \<and> (height topBlock > maxHeight p \<and> walletOutputs st = []))"
| "path_condition PendingNone cfg p topBlock st =
     (\<not> walletOutputs st \<noteq> []
      \<and> \<not> (height topBlock > maxHeight p \<and> walletOutputs st = []))"

text \<open>
  The preconditions of the six branches in the specification's words (section 4.1, step 4),
  "deadline not yet passed" being that the top block's height does not exceed
  \<^verbatim>\<open>maxHeight\<close>, and the difference of the heights being the number that the code
  computes.
\<close>

fun stated_precondition ::
  "branch \<Rightarrow> config \<Rightarrow> ('r, 'm) payload \<Rightarrow> header \<Rightarrow> 'm scan_state \<Rightarrow> bool" where
  "stated_precondition Funded cfg p topBlock st =
     (walletOutputs st \<noteq> [] \<and> totalAmount st \<ge> request_amount (request p)
      \<and> js_sub (height topBlock) (fundsFoundInBlock st) \<ge> confirmationsRequired cfg)"
| "stated_precondition PendingConfirmation cfg p topBlock st =
     (walletOutputs st \<noteq> [] \<and> totalAmount st \<ge> request_amount (request p)
      \<and> js_sub (height topBlock) (fundsFoundInBlock st) < confirmationsRequired cfg)"
| "stated_precondition PartiallyFundedTimeout cfg p topBlock st =
     (walletOutputs st \<noteq> [] \<and> totalAmount st < request_amount (request p)
      \<and> height topBlock > maxHeight p
      \<and> js_sub (height topBlock) (fundsFoundInBlock st) \<ge> confirmationsRequired cfg)"
| "stated_precondition PendingMore cfg p topBlock st =
     (walletOutputs st \<noteq> [] \<and> totalAmount st < request_amount (request p)
      \<and> height topBlock \<le> maxHeight p)"
| "stated_precondition TimedOut cfg p topBlock st =
     (walletOutputs st = [] \<and> height topBlock > maxHeight p)"
| "stated_precondition PendingNone cfg p topBlock st =
     (walletOutputs st = [] \<and> height topBlock \<le> maxHeight p)"

text \<open>
  What the specification documents for each branch: the messages published, then the
  settlement of the delivery.
\<close>

fun documented_outcome ::
  "branch \<Rightarrow> config \<Rightarrow> ('r, 'm) message \<Rightarrow> 'm scan_state \<Rightarrow> ('r, 'm) effect list" where
  "documented_outcome Funded cfg message st =
     [SendToQueue Public (complete (queues cfg))
        (ResponseJson \<lparr>r_address = address (wallet (content message)), status = 100,
                       r_request = request (content message)\<rparr>),
      SendToQueue Private (send (queues cfg))
        (PayloadJson ((content message)\<lparr>funds := Some (walletOutputs st)\<rparr>)),
      Ack message]"
| "documented_outcome PartiallyFundedTimeout cfg message st =
     [SendToQueue Public (complete (queues cfg))
        (ResponseJson \<lparr>r_address = address (wallet (content message)), status = 206,
                       r_request = request (content message)\<rparr>),
      SendToQueue Private (send (queues cfg))
        (PayloadJson ((content message)\<lparr>funds := Some (walletOutputs st)\<rparr>)),
      Ack message]"
| "documented_outcome TimedOut cfg message st =
     [SendToQueue Public (complete (queues cfg))
        (ResponseJson \<lparr>r_address = address (wallet (content message)), status = 408,
                       r_request = request (content message)\<rparr>),
      Ack message]"
| "documented_outcome PendingConfirmation cfg message st = [Nack message]"
| "documented_outcome PendingMore cfg message st = [Nack message]"
| "documented_outcome PendingNone cfg message st = [Nack message]"

section \<open>What a batch holds for a wallet\<close>

definition matched_in_block :: "'m matcher \<Rightarrow> wallet \<Rightarrow> block \<Rightarrow> 'm txn_output_scheme list" where
  "matched_in_block matcher w b = concat (map (scanTransactionOutputs matcher w) (transactions b))"

definition contributing :: "'m matcher \<Rightarrow> wallet \<Rightarrow> block list \<Rightarrow> block list" where
  "contributing matcher w syncData = filter (\<lambda>b. matched_in_block matcher w b \<noteq> []) syncData"

section \<open>A wallet, a chain and a matcher to run the handler on\<close>

definition example_config :: config where
  "example_config =
     \<lparr>queues = \<lparr>scan = ''scan'', send = ''send'', complete = ''complete''\<rparr>,
      blockHeaderUrl = ''http://node/header/'', syncUrl = ''http://node/sync'',
      maximumScanBlocks = 100, confirmationsRequired = 10\<rparr>"

definition example_runtime :: runtime where
  "example_runtime = \<lparr>workerId = 1, utcNow = ''Thu, 01 Nov 2018 12:00:00 GMT''\<rparr>"

definition example_wallet :: wallet where
  "example_wallet =
     \<lparr>address = ''TRTLw'', view = \<lparr>view_privateKey = ''vk''\<rparr>,
      spend = \<lparr>spend_publicKey = ''SP'', spend_privateKey = ''sk''\<rparr>\<rparr>"

text \<open>A request for 100 units, created at height 480, with the deadline \<open>deadline\<close>.\<close>

definition example_message :: "int \<Rightarrow> (unit, unit) message" where
  "example_message deadline =
     \<lparr>deliveryTag = 7,
      content = \<lparr>wallet = example_wallet, request = \<lparr>request_amount = 100\<rparr>,
                 scanHeight = 480, maxHeight = deadline, funds = None\<rparr>\<rparr>"

text \<open>A stand-in for the matcher: an output is the wallet's when its key is the spend key.\<close>

definition example_matcher :: "unit matcher" where
  "example_matcher txKey outs viewPrivate spendPublic spendPrivate =
     filter (\<lambda>out. key out = spendPublic) outs"

text \<open>
  A block of height \<open>h\<close> with one transaction: an output to the example wallet for each of
  \<open>amounts\<close>, and one output of 7 to somebody else.
\<close>

definition example_block :: "int \<Rightarrow> int list \<Rightarrow> block" where
  "example_block h amounts =
     \<lparr>block_height = h,
      transactions =
        [\<lparr>publicKey = ''P'',
          outputs =
            map (\<lambda>a. \<lparr>outputIndex = 0, raw_globalIndex = 0, raw_amount = a, raw_key = ''SP''\<rparr>)
              amounts
            @ [\<lparr>outputIndex = 1, raw_globalIndex = 1, raw_amount = 7, raw_key = ''XX''\<rparr>]\<rparr>]\<rparr>"

text \<open>A service whose chain head is at \<open>tip\<close> and which answers every sync with \<open>batch\<close>.\<close>

definition example_service :: "int \<Rightarrow> block list \<Rightarrow> chain_service" where
  "example_service tip batch =
     \<lparr>getHeader = (\<lambda>url path. case path of
          Top \<Rightarrow> Some \<lparr>height = tip, hash = ''T''\<rparr>
        | AtHeight h \<Rightarrow> Some \<lparr>height = h, hash = ''S''\<rparr>),
      postSync = (\<lambda>url known n. Some batch)\<rparr>"

lemmas example_defs =
  example_config_def example_runtime_def example_wallet_def example_message_def
  example_matcher_def example_block_def example_service_def

section \<open>Where sums and differences are exact\<close>

lemma round_to_double_exact: "\<bar>x\<bar> \<le> 2 ^ 53 \<Longrightarrow> round_to_double x = x"
proof (cases "\<bar>x\<bar> < 2 ^ 53")
  case True
  then show ?thesis by (simp add: round_to_double_def)
next
  case False
  assume "\<bar>x\<bar> \<le> 2 ^ 53"
  with False have m: "\<bar>x\<bar> = 2 ^ 53" by simp
  have e: "ulp_exponent (2 ^ 53) = Suc 0"
    by (subst ulp_exponent.simps) simp
  have "x = 2 ^ 53 \<or> x = - (2 ^ 53)" using m by linarith
  then show ?thesis
    by (auto simp add: round_to_double_def m e Let_def)
qed

text \<open>
  Past \<open>2 ^ 53\<close> the doubles are two apart, then four apart: an integer halfway between
  two of them goes to the one with the even significand, and a sum from \<open>2 ^ 1024\<close> on is
  infinite.
\<close>

lemma round_to_double_ties:
  "round_to_double 9007199254740993 = 9007199254740992"
  "round_to_double 9007199254740994 = 9007199254740994"
  "round_to_double 9007199254740995 = 9007199254740996"
  "round_to_double (- 9007199254740995) = - 9007199254740996"
  "round_to_double 18014398509481986 = 18014398509481984"
  "round_to_double 18014398509481990 = 18014398509481992"
  by (simp_all add: round_to_double_def Let_def)

lemma js_add_overflows: "js_add (2 ^ 1023) (2 ^ 1023) = js_infinity"
  by (simp add: js_add_def js_infinity_def overflow_def round_to_double_def Let_def)

lemma js_infinity_large: "2 ^ 53 < js_infinity"
  unfolding js_infinity_def by (rule power_strict_increasing) simp_all

lemma js_add_exact:
  assumes "\<bar>a\<bar> < js_infinity" and "\<bar>b\<bar> < js_infinity" and "\<bar>a + b\<bar> \<le> 2 ^ 53"
  shows "js_add a b = a + b"
proof -
  from assms(3) js_infinity_large have "\<bar>a + b\<bar> < js_infinity" by linarith
  then have "overflow (a + b) = a + b" unfolding overflow_def by auto
  with assms show ?thesis by (simp add: js_add_def round_to_double_exact)
qed

lemma js_sub_exact:
  assumes "\<bar>a\<bar> < js_infinity" and "\<bar>b\<bar> < js_infinity" and "\<bar>a - b\<bar> \<le> 2 ^ 53"
  shows "js_sub a b = a - b"
  using js_add_exact [of a "- b"] assms by (simp add: js_sub_def)

lemma js_add_small:
  assumes "\<bar>a\<bar> \<le> 4503599627370496" and "\<bar>b\<bar> \<le> 4503599627370496"
  shows "js_add a b = a + b"
proof -
  have p: "(2::int) ^ 53 = 9007199254740992" by simp
  from assms p js_infinity_large show ?thesis by (intro js_add_exact) linarith+
qed

lemma js_sub_small:
  assumes "\<bar>a\<bar> \<le> 4503599627370496" and "\<bar>b\<bar> \<le> 4503599627370496"
  shows "js_sub a b = a - b"
  using js_add_small [of a "- b"] assms by (simp add: js_sub_def)

lemma blockCount_exact:
  "\<bar>maximumScanBlocks cfg\<bar> < 2 ^ 53 \<Longrightarrow> blockCount cfg = maximumScanBlocks cfg + 1"
  unfolding blockCount_def using js_infinity_large by (intro js_add_exact) simp_all

lemma foldl_js_add_exact:
  assumes "list_all (\<lambda>x. 0 \<le> x) xs" and "0 \<le> t" and "t + sum_list xs \<le> 2 ^ 53"
  shows "foldl js_add t xs = t + sum_list xs"
  using assms
proof (induction xs arbitrary: t)
  case Nil
  then show ?case by simp
next
  case (Cons x xs)
  from Cons.prems have x: "0 \<le> x" and xs: "list_all (\<lambda>x. 0 \<le> x) xs" by simp_all
  have rest: "0 \<le> sum_list xs" using xs by (induction xs) simp_all
  from Cons.prems(2,3) x rest have b: "t + x \<le> 2 ^ 53" "t \<le> 2 ^ 53" "x \<le> 2 ^ 53" by simp_all
  with Cons.prems(2) x js_infinity_large have "js_add t x = t + x"
    by (intro js_add_exact) linarith+
  moreover have "foldl js_add (t + x) xs = (t + x) + sum_list xs"
    using Cons.prems x xs by (intro Cons.IH) simp_all
  ultimately show ?case by simp
qed

section \<open>The example evaluated\<close>

lemma example_message_fields:
  "wallet (content (example_message d)) = example_wallet"
  "request (content (example_message d)) = \<lparr>request_amount = 100\<rparr>"
  "scanHeight (content (example_message d)) = 480"
  "maxHeight (content (example_message d)) = d"
  by (simp_all add: example_message_def)

lemma example_service_answers:
  "getHeader (example_service tip batch) url Top = Some \<lparr>height = tip, hash = ''T''\<rparr>"
  "getHeader (example_service tip batch) url (AtHeight h) = Some \<lparr>height = h, hash = ''S''\<rparr>"
  "postSync (example_service tip batch) url known n = Some batch"
  by (simp_all add: example_service_def)

lemma example_config_fields:
  "confirmationsRequired example_config = 10"
  "blockHeaderUrl example_config = ''http://node/header/''"
  "syncUrl example_config = ''http://node/sync''"
  "maximumScanBlocks example_config = 100"
  "blockCount example_config = 101"
  "queues example_config = \<lparr>scan = ''scan'', send = ''send'', complete = ''complete''\<rparr>"
  by (simp_all add: example_config_def blockCount_def js_add_small)

lemma example_fetches:
  "getHeader (example_service tip batch) (blockHeaderUrl example_config) Top
     = Some \<lparr>height = tip, hash = ''T''\<rparr>"
  "getHeader (example_service tip batch) (blockHeaderUrl example_config)
     (AtHeight (scanHeight (content (example_message d)))) = Some \<lparr>height = 480, hash = ''S''\<rparr>"
  "postSync (example_service tip batch) (syncUrl example_config)
     [hash \<lparr>height = 480, hash = ''S''\<rparr>] (blockCount example_config) = Some batch"
  by (simp_all add: example_service_answers example_message_fields)

lemma example_scan_120:
  "scan_batch example_matcher example_wallet [example_block 490 [50], example_block 500 [70]] =
     \<lparr>walletOutputs = [\<lparr>index = 0, globalIndex = 0, amount = 50, key = ''SP''\<rparr>,
                       \<lparr>index = 0, globalIndex = 0, amount = 70, key = ''SP''\<rparr>],
      totalAmount = 120, fundsFoundInBlock = 500\<rparr>"
  by (simp add: scan_batch_def scan_start_def scanTransactionOutputs_def reform_def example_defs
        js_add_small)

lemma example_scan_50:
  "scan_batch example_matcher example_wallet [example_block h [50]] =
     \<lparr>walletOutputs = [\<lparr>index = 0, globalIndex = 0, amount = 50, key = ''SP''\<rparr>],
      totalAmount = 50, fundsFoundInBlock = (if h > 0 then h else 0)\<rparr>"
  by (simp add: scan_batch_def scan_start_def scanTransactionOutputs_def reform_def example_defs
        js_add_small)

lemma example_scan_none:
  "scan_batch example_matcher example_wallet [example_block h []] =
     \<lparr>walletOutputs = [], totalAmount = 0, fundsFoundInBlock = 0\<rparr>"
  by (simp add: scan_batch_def scan_start_def scanTransactionOutputs_def reform_def example_defs
        js_add_small)

section \<open>Fetching: failures, no progress, a head below the scan height\<close>

text \<open>
  When the three requests are answered and the head is not at the scan height, a run is the
  three requests followed by the decision on the batch scanned from scratch.
\<close>

lemma handler_evaluates:
  assumes "getHeader svc (blockHeaderUrl cfg) Top = Some topBlock"
    and "getHeader svc (blockHeaderUrl cfg) (AtHeight (scanHeight (content message))) = Some startBlock"
    and "height topBlock \<noteq> scanHeight (content message)"
    and "postSync svc (syncUrl cfg) [hash startBlock] (blockCount cfg) = Some syncData"
  shows "handler cfg rt svc matcher (Some message) =
    [HttpGet (blockHeaderUrl cfg) Top,
     HttpGet (blockHeaderUrl cfg) (AtHeight (scanHeight (content message))),
     HttpPost (syncUrl cfg) [hash startBlock] (blockCount cfg)]
    @ decide cfg rt message topBlock (scan_batch matcher (wallet (content message)) syncData)"
  using assms by (simp add: handler_def Let_def)

text \<open>
  C5. A failed request ends the run at once. If the request for the top header rejects, the
  run is that request, one diagnostic line and the negative acknowledgement; if the request
  for the header at the scan height rejects, it is the two header requests, the diagnostic line
  and the negative acknowledgement; if the request for the batch rejects, it is the three
  requests, one diagnostic line and the negative acknowledgement. In none of the three is
  anything published to either queue, and nothing follows the negative acknowledgement.
\<close>

theorem fetch_failure_nack:
  "(getHeader svc (blockHeaderUrl cfg) Top = None \<longrightarrow>
      handler cfg rt svc matcher (Some message) =
        [HttpGet (blockHeaderUrl cfg) Top,
         ConsoleLog (utcNow rt) (ErrorRetrievingBlockData (workerId rt)),
         Nack message])
   \<and> (getHeader svc (blockHeaderUrl cfg) Top = Some topBlock
      \<and> getHeader svc (blockHeaderUrl cfg) (AtHeight (scanHeight (content message))) = None \<longrightarrow>
      handler cfg rt svc matcher (Some message) =
        [HttpGet (blockHeaderUrl cfg) Top,
         HttpGet (blockHeaderUrl cfg) (AtHeight (scanHeight (content message))),
         ConsoleLog (utcNow rt) (ErrorRetrievingBlockData (workerId rt)),
         Nack message])
   \<and> (getHeader svc (blockHeaderUrl cfg) Top = Some topBlock
      \<and> getHeader svc (blockHeaderUrl cfg) (AtHeight (scanHeight (content message))) = Some startBlock
      \<and> height topBlock \<noteq> scanHeight (content message)
      \<and> postSync svc (syncUrl cfg) [hash startBlock] (blockCount cfg) = None \<longrightarrow>
      handler cfg rt svc matcher (Some message) =
        [HttpGet (blockHeaderUrl cfg) Top,
         HttpGet (blockHeaderUrl cfg) (AtHeight (scanHeight (content message))),
         HttpPost (syncUrl cfg) [hash startBlock] (blockCount cfg),
         ConsoleLog (utcNow rt)
           (ErrorRetrievingSyncData (workerId rt) (address (wallet (content message)))),
         Nack message])"
  by (simp add: handler_def log_def Let_def)

text \<open>
  A service that answers nothing, one that answers the top header only, and one that
  answers the headers and rejects the sync.
\<close>

theorem fetch_failure_nack_witness:
  "handler example_config example_runtime
       ((example_service 505 [example_block 490 [120]])\<lparr>getHeader := \<lambda>url path. None\<rparr>)
       example_matcher (Some (example_message 500)) =
     [HttpGet ''http://node/header/'' Top,
      ConsoleLog ''Thu, 01 Nov 2018 12:00:00 GMT'' (ErrorRetrievingBlockData 1),
      Nack (example_message 500)]
   \<and> handler example_config example_runtime
       ((example_service 505 [example_block 490 [120]])
          \<lparr>getHeader := \<lambda>url path. case path of Top \<Rightarrow> Some \<lparr>height = 505, hash = ''T''\<rparr>
                                              | AtHeight h \<Rightarrow> None\<rparr>)
       example_matcher (Some (example_message 500)) =
     [HttpGet ''http://node/header/'' Top,
      HttpGet ''http://node/header/'' (AtHeight 480),
      ConsoleLog ''Thu, 01 Nov 2018 12:00:00 GMT'' (ErrorRetrievingBlockData 1),
      Nack (example_message 500)]
   \<and> handler example_config example_runtime
       ((example_service 505 [example_block 490 [120]])\<lparr>postSync := \<lambda>url known n. None\<rparr>)
       example_matcher (Some (example_message 500)) =
     [HttpGet ''http://node/header/'' Top,
      HttpGet ''http://node/header/'' (AtHeight 480),
      HttpPost ''http://node/sync'' [''S''] 101,
      ConsoleLog ''Thu, 01 Nov 2018 12:00:00 GMT'' (ErrorRetrievingSyncData 1 ''TRTLw''),
      Nack (example_message 500)]"
proof -
  let ?svc = "example_service 505 [example_block 490 [120]]"
  let ?msg = "example_message 500"
  let ?top = "\<lparr>height = 505, hash = ''T''\<rparr>"
  let ?start = "\<lparr>height = 480, hash = ''S''\<rparr>"
  have a: "getHeader (?svc\<lparr>getHeader := \<lambda>url path. None\<rparr>) (blockHeaderUrl example_config) Top = None"
    by simp
  have b: "getHeader (?svc\<lparr>getHeader := \<lambda>url path. case path of Top \<Rightarrow> Some ?top | AtHeight h \<Rightarrow> None\<rparr>)
        (blockHeaderUrl example_config) Top = Some ?top
      \<and> getHeader (?svc\<lparr>getHeader := \<lambda>url path. case path of Top \<Rightarrow> Some ?top | AtHeight h \<Rightarrow> None\<rparr>)
        (blockHeaderUrl example_config) (AtHeight (scanHeight (content ?msg))) = None"
    by simp
  have c: "getHeader (?svc\<lparr>postSync := \<lambda>url known n. None\<rparr>) (blockHeaderUrl example_config) Top = Some ?top
      \<and> getHeader (?svc\<lparr>postSync := \<lambda>url known n. None\<rparr>) (blockHeaderUrl example_config)
          (AtHeight (scanHeight (content ?msg))) = Some ?start
      \<and> height ?top \<noteq> scanHeight (content ?msg)
      \<and> postSync (?svc\<lparr>postSync := \<lambda>url known n. None\<rparr>) (syncUrl example_config) [hash ?start]
          (blockCount example_config) = None"
    by (simp add: example_service_answers example_message_fields)
  note r1 = fetch_failure_nack [THEN conjunct1, rule_format, OF a, of example_runtime example_matcher ?msg]
  note r2 = fetch_failure_nack [THEN conjunct2, THEN conjunct1, rule_format, OF b, of example_runtime example_matcher]
  note r3 = fetch_failure_nack [THEN conjunct2, THEN conjunct2, rule_format, OF c, of example_runtime example_matcher]
  show ?thesis
    unfolding r1 r2 r3
    by (simp add: example_message_fields example_config_fields)
       (simp add: example_wallet_def example_runtime_def)
qed

text \<open>
  C6. When both header requests succeed and the top block's height is the payload's scan
  height, the handler sends the two header requests, negative-acknowledges the delivery and
  does nothing else: no request for a batch, nothing published.
\<close>

theorem no_progress_nack:
  assumes "getHeader svc (blockHeaderUrl cfg) Top = Some topBlock"
    and "getHeader svc (blockHeaderUrl cfg) (AtHeight (scanHeight (content message))) = Some startBlock"
    and "height topBlock = scanHeight (content message)"
  shows "handler cfg rt svc matcher (Some message) =
    [HttpGet (blockHeaderUrl cfg) Top,
     HttpGet (blockHeaderUrl cfg) (AtHeight (scanHeight (content message))),
     Nack message]"
  using assms by (simp add: handler_def Let_def)

text \<open>
  The first scenario of the specification's section 8, at height 480.
\<close>

theorem no_progress_nack_witness:
  "getHeader (example_service 480 [example_block 470 [120]]) (blockHeaderUrl example_config) Top
     = Some \<lparr>height = 480, hash = ''T''\<rparr>
   \<and> getHeader (example_service 480 [example_block 470 [120]]) (blockHeaderUrl example_config)
       (AtHeight (scanHeight (content (example_message 500)))) = Some \<lparr>height = 480, hash = ''S''\<rparr>
   \<and> height \<lparr>height = 480, hash = ''T''\<rparr> = scanHeight (content (example_message 500))
   \<and> handler example_config example_runtime (example_service 480 [example_block 470 [120]])
       example_matcher (Some (example_message 500)) =
     [HttpGet ''http://node/header/'' Top, HttpGet ''http://node/header/'' (AtHeight 480),
      Nack (example_message 500)]"
  using no_progress_nack [of "example_service 480 [example_block 470 [120]]" example_config
      "\<lparr>height = 480, hash = ''T''\<rparr>" "example_message 500" "\<lparr>height = 480, hash = ''S''\<rparr>"
      example_runtime example_matcher]
  by (simp add: example_service_def example_config_def example_message_def)

text \<open>
  C10. The no-progress check is an equality. When both header requests succeed and the top
  block's height is strictly below the payload's scan height, the handler goes on to request
  the batch and, when that is answered, to scan it and take the decision; and there is such a
  delivery that the handler acknowledges, that is, on which a terminal branch is reached.
\<close>

theorem rollback_not_short_circuited:
  "(getHeader svc (blockHeaderUrl cfg) Top = Some topBlock
    \<and> getHeader svc (blockHeaderUrl cfg) (AtHeight (scanHeight (content message))) = Some startBlock
    \<and> height topBlock < scanHeight (content message)
    \<longrightarrow> handler cfg rt svc matcher (Some message) =
        [HttpGet (blockHeaderUrl cfg) Top,
         HttpGet (blockHeaderUrl cfg) (AtHeight (scanHeight (content message))),
         HttpPost (syncUrl cfg) [hash startBlock] (blockCount cfg)]
        @ (case postSync svc (syncUrl cfg) [hash startBlock] (blockCount cfg) of
             None \<Rightarrow>
               [ConsoleLog (utcNow rt)
                  (ErrorRetrievingSyncData (workerId rt) (address (wallet (content message)))),
                Nack message]
           | Some syncData \<Rightarrow>
               decide cfg rt message topBlock
                 (scan_batch matcher (wallet (content message)) syncData)))
   \<and> (\<exists>cfg' rt' svc' (matcher' :: unit matcher) (message' :: (unit, unit) message) topBlock'.
        getHeader svc' (blockHeaderUrl cfg') Top = Some topBlock'
        \<and> height topBlock' < scanHeight (content message')
        \<and> Ack message' \<in> set (handler cfg' rt' svc' matcher' (Some message')))"
proof -
  have "Ack (example_message 500)
      \<in> set (handler example_config example_runtime (example_service 470 [example_block 450 [50, 70]])
                example_matcher (Some (example_message 500)))"
    by (simp add: handler_def example_service_answers example_message_fields example_config_fields
          decide_def confirmations_def log_def Let_def js_add_small js_sub_small
          scan_batch_def scan_start_def scanTransactionOutputs_def reform_def
          example_block_def example_matcher_def example_wallet_def)
  moreover have "getHeader (example_service 470 [example_block 450 [50, 70]])
      (blockHeaderUrl example_config) Top = Some \<lparr>height = 470, hash = ''T''\<rparr>"
    by (simp add: example_service_answers)
  moreover have "height \<lparr>height = 470, hash = ''T''\<rparr> < scanHeight (content (example_message 500))"
    by (simp add: example_message_fields)
  ultimately have "\<exists>cfg' rt' svc' (matcher' :: unit matcher) (message' :: (unit, unit) message) topBlock'.
        getHeader svc' (blockHeaderUrl cfg') Top = Some topBlock'
        \<and> height topBlock' < scanHeight (content message')
        \<and> Ack message' \<in> set (handler cfg' rt' svc' matcher' (Some message'))"
    by blast
  then show ?thesis
    by (simp add: handler_def log_def Let_def split: option.split)
qed

text \<open>
  The head at 470, below the scan height 480, and 120 units found in the block 450: the
  request is funded and the delivery acknowledged.
\<close>

theorem rollback_not_short_circuited_witness:
  "getHeader (example_service 470 [example_block 450 [50, 70]]) (blockHeaderUrl example_config) Top
     = Some \<lparr>height = 470, hash = ''T''\<rparr>
   \<and> height \<lparr>height = 470, hash = ''T''\<rparr> < scanHeight (content (example_message 500))
   \<and> handler example_config example_runtime (example_service 470 [example_block 450 [50, 70]])
       example_matcher (Some (example_message 500)) =
     [HttpGet ''http://node/header/'' Top,
      HttpGet ''http://node/header/'' (AtHeight 480),
      HttpPost ''http://node/sync'' [''S''] 101,
      SendToQueue Public ''complete''
        (ResponseJson \<lparr>r_address = ''TRTLw'', status = 100, r_request = \<lparr>request_amount = 100\<rparr>\<rparr>),
      SendToQueue Private ''send''
        (PayloadJson \<lparr>wallet = example_wallet, request = \<lparr>request_amount = 100\<rparr>,
           scanHeight = 480, maxHeight = 500,
           funds = Some [\<lparr>index = 0, globalIndex = 0, amount = 50, key = ''SP''\<rparr>,
                         \<lparr>index = 0, globalIndex = 0, amount = 70, key = ''SP''\<rparr>]\<rparr>),
      ConsoleLog ''Thu, 01 Nov 2018 12:00:00 GMT'' (InfoForwarding 1 120 ''TRTLw''),
      Ack (example_message 500)]"
proof -
  let ?msg = "example_message 500"
  let ?top = "\<lparr>height = 470, hash = ''T''\<rparr>"
  let ?svc = "example_service 470 [example_block 450 [50, 70]]"
  have h: "getHeader ?svc (blockHeaderUrl example_config) Top = Some ?top
    \<and> getHeader ?svc (blockHeaderUrl example_config) (AtHeight (scanHeight (content ?msg)))
        = Some \<lparr>height = 480, hash = ''S''\<rparr>
    \<and> height ?top < scanHeight (content ?msg)"
    by (simp add: example_service_answers example_message_fields)
  note run = rollback_not_short_circuited
    [THEN conjunct1, rule_format, OF h, of example_runtime example_matcher]
  have scan: "scan_batch example_matcher example_wallet [example_block 450 [50, 70]] =
     \<lparr>walletOutputs = [\<lparr>index = 0, globalIndex = 0, amount = 50, key = ''SP''\<rparr>,
                       \<lparr>index = 0, globalIndex = 0, amount = 70, key = ''SP''\<rparr>],
      totalAmount = 120, fundsFoundInBlock = 450\<rparr>"
    by (simp add: scan_batch_def scan_start_def scanTransactionOutputs_def reform_def example_defs
        js_add_small)
  show ?thesis
    unfolding run
    by (simp add: example_service_answers example_message_fields example_config_fields scan
          decide_def confirmations_def log_def Let_def js_sub_small)
       (simp add: example_message_def example_wallet_def example_runtime_def)
qed

section \<open>The matching loops\<close>

lemma walletOutputs_tally: "walletOutputs (tally found st) = walletOutputs st @ found"
  by (induction found arbitrary: st) simp_all

lemma totalAmount_tally:
  "totalAmount (tally found st) = foldl js_add (totalAmount st) (map amount found)"
  by (induction found arbitrary: st) simp_all

lemma fundsFoundInBlock_tally: "fundsFoundInBlock (tally found st) = fundsFoundInBlock st"
  by (induction found arbitrary: st) simp_all

lemma walletOutputs_scan_transactions:
  "walletOutputs (scan_transactions matcher w h txs st) =
     walletOutputs st @ concat (map (scanTransactionOutputs matcher w) txs)"
  by (induction txs arbitrary: st) (simp_all add: Let_def walletOutputs_tally)

lemma totalAmount_scan_transactions:
  "totalAmount (scan_transactions matcher w h txs st) =
     foldl js_add (totalAmount st)
       (map amount (concat (map (scanTransactionOutputs matcher w) txs)))"
  by (induction txs arbitrary: st) (simp_all add: Let_def totalAmount_tally)

lemma fundsFoundInBlock_scan_transactions:
  "fundsFoundInBlock (scan_transactions matcher w h txs st) =
     (if concat (map (scanTransactionOutputs matcher w) txs) \<noteq> []
      then max h (fundsFoundInBlock st) else fundsFoundInBlock st)"
  by (induction txs arbitrary: st) (auto simp add: Let_def fundsFoundInBlock_tally)

lemma walletOutputs_scan_blocks:
  "walletOutputs (scan_blocks matcher w bs st) =
     walletOutputs st @ concat (map (matched_in_block matcher w) bs)"
  by (induction bs arbitrary: st)
     (simp_all add: walletOutputs_scan_transactions matched_in_block_def)

lemma totalAmount_scan_blocks:
  "totalAmount (scan_blocks matcher w bs st) =
     foldl js_add (totalAmount st)
       (map amount (concat (map (matched_in_block matcher w) bs)))"
  by (induction bs arbitrary: st)
     (simp_all add: totalAmount_scan_transactions matched_in_block_def)

lemma fundsFoundInBlock_scan_blocks:
  "fundsFoundInBlock (scan_blocks matcher w bs st) =
     fold max (map block_height (contributing matcher w bs)) (fundsFoundInBlock st)"
  by (induction bs arbitrary: st)
     (simp_all add: fundsFoundInBlock_scan_transactions matched_in_block_def contributing_def)

lemma Max_nonneg_drop_zero:
  fixes hs :: "int list"
  assumes "hs \<noteq> []" and "list_all (\<lambda>h. 0 \<le> h) hs"
  shows "Max (set (0 # hs)) = Max (set hs)"
proof -
  obtain h where h: "h \<in> set hs" using assms(1) by (cases hs) auto
  then have "0 \<le> h" using assms(2) by (simp add: list_all_iff)
  moreover have "h \<le> Max (set hs)" using h by simp
  ultimately have "0 \<le> Max (set hs)" by linarith
  moreover have "Max (set (0 # hs)) = max 0 (Max (set hs))"
    using assms(1) by simp
  ultimately show ?thesis by simp
qed

text \<open>
  C7, as stated, fails on the total, and on the height when a height is negative. Three
  outputs of \<open>2 ^ 53 - 1\<close>, 1 and 1 in one block sum to \<open>2 ^ 53 + 1\<close>, and the total that
  the loop reaches is \<open>2 ^ 53\<close>: the last addition rounds. A match in a block of height
  \<open>- 5\<close> leaves \<open>fundsFoundInBlock\<close> at its initial 0.
\<close>

theorem total_not_exact:
  "totalAmount (scan_batch example_matcher example_wallet
      [example_block 490 [9007199254740991, 1, 1]]) = 9007199254740992
   \<and> sum_list (map amount (walletOutputs (scan_batch example_matcher example_wallet
        [example_block 490 [9007199254740991, 1, 1]]))) = 9007199254740993
   \<and> fundsFoundInBlock (scan_batch example_matcher example_wallet [example_block (- 5) [50]]) = 0
   \<and> Max (set (map block_height
        (contributing example_matcher example_wallet [example_block (- 5) [50]]))) = - 5"
proof -
  have total: "totalAmount (scan_batch example_matcher example_wallet
      [example_block 490 [9007199254740991, 1, 1]]) = 9007199254740992"
    by (simp add: scan_batch_def scan_start_def scanTransactionOutputs_def reform_def example_defs
          js_add_def js_infinity_def overflow_def round_to_double_def Let_def)
  have exact: "sum_list (map amount (walletOutputs (scan_batch example_matcher example_wallet
        [example_block 490 [9007199254740991, 1, 1]]))) = 9007199254740993"
    by (simp add: scan_batch_def scan_start_def scanTransactionOutputs_def reform_def example_defs)
  have ffb: "fundsFoundInBlock (scan_batch example_matcher example_wallet
        [example_block (- 5) [50]]) = 0"
    using example_scan_50 [of "- 5"] by simp
  have "contributing example_matcher example_wallet [example_block (- 5) [50]]
      = [example_block (- 5) [50]]"
    by (simp add: contributing_def matched_in_block_def scanTransactionOutputs_def reform_def
          example_defs)
  then have top: "Max (set (map block_height
        (contributing example_matcher example_wallet [example_block (- 5) [50]]))) = - 5"
    by (simp add: example_block_def)
  from total exact ffb top show ?thesis by blast
qed

text \<open>
  C7, amended. The scan of a batch starts from no outputs, a total of 0 and the height 0, and
  ends with: \<open>walletOutputs\<close> the concatenation, block by block and transaction by
  transaction, of what the matcher returned; \<open>totalAmount\<close> the sum of the amounts of exactly
  these outputs, added one after the other to 0 as numbers, which is their exact sum when no
  amount is negative and the exact sum does not exceed \<open>2 ^ 53\<close>; \<open>fundsFoundInBlock\<close> the
  greatest of 0 and the heights of the blocks of the batch with at least one match, which is
  the greatest height of such a block when there is one and these heights are not negative;
  and the confirmations the difference, as numbers, of the top block's height and
  \<open>fundsFoundInBlock\<close>, which is their exact difference when both are finite and it does not
  exceed \<open>2 ^ 53\<close> in magnitude.
\<close>

theorem scan_batch_tallies:
  "walletOutputs (scan_batch matcher w syncData) = concat (map (matched_in_block matcher w) syncData)
   \<and> totalAmount (scan_batch matcher w syncData)
       = foldl js_add 0 (map amount (walletOutputs (scan_batch matcher w syncData)))
   \<and> (list_all (\<lambda>out. 0 \<le> amount out) (walletOutputs (scan_batch matcher w syncData))
        \<and> sum_list (map amount (walletOutputs (scan_batch matcher w syncData))) \<le> 2 ^ 53
      \<longrightarrow> totalAmount (scan_batch matcher w syncData)
          = sum_list (map amount (walletOutputs (scan_batch matcher w syncData))))
   \<and> fundsFoundInBlock (scan_batch matcher w syncData)
       = Max (set (0 # map block_height (contributing matcher w syncData)))
   \<and> (contributing matcher w syncData \<noteq> []
        \<and> list_all (\<lambda>b. 0 \<le> block_height b) (contributing matcher w syncData)
      \<longrightarrow> fundsFoundInBlock (scan_batch matcher w syncData)
          = Max (set (map block_height (contributing matcher w syncData))))
   \<and> confirmations topBlock (scan_batch matcher w syncData)
       = js_sub (height topBlock) (fundsFoundInBlock (scan_batch matcher w syncData))
   \<and> (\<bar>height topBlock\<bar> < js_infinity
        \<and> \<bar>fundsFoundInBlock (scan_batch matcher w syncData)\<bar> < js_infinity
        \<and> \<bar>height topBlock - fundsFoundInBlock (scan_batch matcher w syncData)\<bar> \<le> 2 ^ 53
      \<longrightarrow> confirmations topBlock (scan_batch matcher w syncData)
          = height topBlock - fundsFoundInBlock (scan_batch matcher w syncData))"
proof -
  let ?st = "scan_batch matcher w syncData"
  let ?hs = "map block_height (contributing matcher w syncData)"
  have wo: "walletOutputs ?st = concat (map (matched_in_block matcher w) syncData)"
    by (simp add: scan_batch_def scan_start_def walletOutputs_scan_blocks)
  have total: "totalAmount ?st = foldl js_add 0 (map amount (walletOutputs ?st))"
    unfolding wo by (simp add: scan_batch_def scan_start_def totalAmount_scan_blocks)
  have exact: "totalAmount ?st = sum_list (map amount (walletOutputs ?st))"
    if "list_all (\<lambda>out. 0 \<le> amount out) (walletOutputs ?st)"
      and "sum_list (map amount (walletOutputs ?st)) \<le> 2 ^ 53"
  proof -
    from that(1) have "list_all (\<lambda>x. 0 \<le> x) (map amount (walletOutputs ?st))"
      by (simp add: list_all_iff)
    with that(2) have "foldl js_add 0 (map amount (walletOutputs ?st))
        = 0 + sum_list (map amount (walletOutputs ?st))"
      by (intro foldl_js_add_exact) simp_all
    with total show ?thesis by simp
  qed
  have ffb: "fundsFoundInBlock ?st = Max (set (0 # ?hs))"
    by (simp only: scan_batch_def fundsFoundInBlock_scan_blocks Max.set_eq_fold)
       (simp add: scan_start_def)
  have top: "fundsFoundInBlock ?st = Max (set ?hs)"
    if "contributing matcher w syncData \<noteq> []"
      and "list_all (\<lambda>b. 0 \<le> block_height b) (contributing matcher w syncData)"
  proof -
    from that have "Max (set (0 # ?hs)) = Max (set ?hs)"
      by (intro Max_nonneg_drop_zero) (simp_all add: list_all_iff)
    with ffb show ?thesis by simp
  qed
  have conf: "confirmations topBlock ?st = js_sub (height topBlock) (fundsFoundInBlock ?st)"
    by (simp add: confirmations_def)
  have conf_exact: "confirmations topBlock ?st = height topBlock - fundsFoundInBlock ?st"
    if "\<bar>height topBlock\<bar> < js_infinity" and "\<bar>fundsFoundInBlock ?st\<bar> < js_infinity"
      and "\<bar>height topBlock - fundsFoundInBlock ?st\<bar> \<le> 2 ^ 53"
    unfolding conf using that by (rule js_sub_exact)
  from wo total exact ffb top conf conf_exact show ?thesis by blast
qed

text \<open>
  Two blocks with funds for the wallet, at 490 and at 500, and a later one without, at 510.
\<close>

theorem scan_batch_tallies_witness:
  "contributing example_matcher example_wallet
      [example_block 490 [50], example_block 500 [70], example_block 510 []]
     = [example_block 490 [50], example_block 500 [70]]
   \<and> list_all (\<lambda>b. 0 \<le> block_height b)
       (contributing example_matcher example_wallet
          [example_block 490 [50], example_block 500 [70], example_block 510 []])
   \<and> walletOutputs (scan_batch example_matcher example_wallet
        [example_block 490 [50], example_block 500 [70], example_block 510 []])
      = [\<lparr>index = 0, globalIndex = 0, amount = 50, key = ''SP''\<rparr>,
         \<lparr>index = 0, globalIndex = 0, amount = 70, key = ''SP''\<rparr>]
   \<and> list_all (\<lambda>out. 0 \<le> amount out)
       (walletOutputs (scan_batch example_matcher example_wallet
          [example_block 490 [50], example_block 500 [70], example_block 510 []]))
   \<and> totalAmount (scan_batch example_matcher example_wallet
        [example_block 490 [50], example_block 500 [70], example_block 510 []]) = 120
   \<and> fundsFoundInBlock (scan_batch example_matcher example_wallet
        [example_block 490 [50], example_block 500 [70], example_block 510 []]) = 500
   \<and> confirmations \<lparr>height = 515, hash = ''T''\<rparr> (scan_batch example_matcher example_wallet
        [example_block 490 [50], example_block 500 [70], example_block 510 []]) = 15"
proof -
  let ?batch = "[example_block 490 [50], example_block 500 [70], example_block 510 []]"
  let ?st = "scan_batch example_matcher example_wallet ?batch"
  let ?top = "\<lparr>height = 515, hash = ''T''\<rparr>"
  have m: "matched_in_block example_matcher example_wallet (example_block 490 [50])
             = [\<lparr>index = 0, globalIndex = 0, amount = 50, key = ''SP''\<rparr>]"
    "matched_in_block example_matcher example_wallet (example_block 500 [70])
             = [\<lparr>index = 0, globalIndex = 0, amount = 70, key = ''SP''\<rparr>]"
    "matched_in_block example_matcher example_wallet (example_block 510 []) = []"
    by (simp_all add: matched_in_block_def scanTransactionOutputs_def reform_def example_defs)
  have c: "contributing example_matcher example_wallet ?batch
      = [example_block 490 [50], example_block 500 [70]]"
    by (simp add: contributing_def m)
  have hs: "map block_height [example_block 490 [50], example_block 500 [70]] = [490, 500]"
    by (simp add: example_block_def)
  have nonneg: "list_all (\<lambda>b. 0 \<le> block_height b) (contributing example_matcher example_wallet ?batch)"
    unfolding c by (simp add: example_block_def)
  note t = scan_batch_tallies [of example_matcher example_wallet ?batch ?top]
  from t have wo: "walletOutputs ?st = [\<lparr>index = 0, globalIndex = 0, amount = 50, key = ''SP''\<rparr>,
         \<lparr>index = 0, globalIndex = 0, amount = 70, key = ''SP''\<rparr>]"
    by (simp add: m)
  have pos: "list_all (\<lambda>out. 0 \<le> amount out) (walletOutputs ?st)"
    unfolding wo by simp
  have "sum_list (map amount (walletOutputs ?st)) \<le> 2 ^ 53"
    unfolding wo by simp
  with t pos have "totalAmount ?st = sum_list (map amount (walletOutputs ?st))"
    by blast
  then have total: "totalAmount ?st = 120"
    unfolding wo by simp
  from t nonneg have "fundsFoundInBlock ?st
      = Max (set (map block_height (contributing example_matcher example_wallet ?batch)))"
    unfolding c by blast
  then have ffb: "fundsFoundInBlock ?st = 500"
    unfolding c hs by simp
  have "\<bar>height ?top\<bar> < js_infinity" "\<bar>fundsFoundInBlock ?st\<bar> < js_infinity"
    "\<bar>height ?top - fundsFoundInBlock ?st\<bar> \<le> 2 ^ 53"
    unfolding ffb using js_infinity_large by simp_all
  with t have "confirmations ?top ?st = height ?top - fundsFoundInBlock ?st"
    by blast
  then have conf: "confirmations ?top ?st = 15"
    unfolding ffb by simp
  from c nonneg wo pos total ffb conf show ?thesis by blast
qed

section \<open>The decision\<close>

text \<open>
  C2. With outputs found, a total that reaches the requested amount and enough confirmations
  (the difference of the two heights, as the code computes it, is at least those required),
  the run is the three requests, one response of status 100 for the wallet's address and the
  request published to the complete queue of the public channel, the payload with the outputs
  as its \<open>funds\<close> published to the send queue of the private channel, one line logged, and the
  acknowledgement. Nothing is assumed of \<open>maxHeight\<close>.
\<close>

theorem funded_branch:
  assumes "getHeader svc (blockHeaderUrl cfg) Top = Some topBlock"
    and "getHeader svc (blockHeaderUrl cfg) (AtHeight (scanHeight (content message))) = Some startBlock"
    and "height topBlock \<noteq> scanHeight (content message)"
    and "postSync svc (syncUrl cfg) [hash startBlock] (blockCount cfg) = Some syncData"
    and "walletOutputs (scan_batch matcher (wallet (content message)) syncData) \<noteq> []"
    and "totalAmount (scan_batch matcher (wallet (content message)) syncData)
           \<ge> request_amount (request (content message))"
    and "js_sub (height topBlock)
             (fundsFoundInBlock (scan_batch matcher (wallet (content message)) syncData))
           \<ge> confirmationsRequired cfg"
  shows "handler cfg rt svc matcher (Some message) =
    [HttpGet (blockHeaderUrl cfg) Top,
     HttpGet (blockHeaderUrl cfg) (AtHeight (scanHeight (content message))),
     HttpPost (syncUrl cfg) [hash startBlock] (blockCount cfg),
     SendToQueue Public (complete (queues cfg))
       (ResponseJson \<lparr>r_address = address (wallet (content message)), status = 100,
                      r_request = request (content message)\<rparr>),
     SendToQueue Private (send (queues cfg))
       (PayloadJson ((content message)
          \<lparr>funds := Some (walletOutputs (scan_batch matcher (wallet (content message)) syncData))\<rparr>)),
     ConsoleLog (utcNow rt)
       (InfoForwarding (workerId rt)
          (totalAmount (scan_batch matcher (wallet (content message)) syncData))
          (address (wallet (content message)))),
     Ack message]"
  using assms(5-7) unfolding handler_evaluates [OF assms(1-4)]
  by (simp add: decide_def confirmations_def log_def Let_def)

text \<open>
  The third scenario of the specification: 120 found for a request of 100, the funds in block
  500, the head at 515, ten confirmations required; the deadline 500 has passed.
\<close>

theorem funded_branch_witness:
  "walletOutputs (scan_batch example_matcher example_wallet
      [example_block 490 [50], example_block 500 [70]]) \<noteq> []
   \<and> totalAmount (scan_batch example_matcher example_wallet
        [example_block 490 [50], example_block 500 [70]]) \<ge> 100
   \<and> js_sub 515 (fundsFoundInBlock (scan_batch example_matcher example_wallet
        [example_block 490 [50], example_block 500 [70]])) \<ge> confirmationsRequired example_config
   \<and> maxHeight (content (example_message 500)) < 515
   \<and> handler example_config example_runtime
        (example_service 515 [example_block 490 [50], example_block 500 [70]])
        example_matcher (Some (example_message 500)) =
      [HttpGet ''http://node/header/'' Top,
       HttpGet ''http://node/header/'' (AtHeight 480),
       HttpPost ''http://node/sync'' [''S''] 101,
       SendToQueue Public ''complete''
         (ResponseJson \<lparr>r_address = ''TRTLw'', status = 100, r_request = \<lparr>request_amount = 100\<rparr>\<rparr>),
       SendToQueue Private ''send''
         (PayloadJson \<lparr>wallet = example_wallet, request = \<lparr>request_amount = 100\<rparr>,
            scanHeight = 480, maxHeight = 500,
            funds = Some [\<lparr>index = 0, globalIndex = 0, amount = 50, key = ''SP''\<rparr>,
                          \<lparr>index = 0, globalIndex = 0, amount = 70, key = ''SP''\<rparr>]\<rparr>),
       ConsoleLog ''Thu, 01 Nov 2018 12:00:00 GMT'' (InfoForwarding 1 120 ''TRTLw''),
       Ack (example_message 500)]"
proof -
  let ?svc = "example_service 515 [example_block 490 [50], example_block 500 [70]]"
  note cfg = example_config_fields
  let ?batch = "[example_block 490 [50], example_block 500 [70]]"
  let ?msg = "example_message 500"
  have h1: "getHeader ?svc (blockHeaderUrl example_config) Top = Some \<lparr>height = 515, hash = ''T''\<rparr>"
    by (simp add: example_service_answers)
  have h2: "getHeader ?svc (blockHeaderUrl example_config) (AtHeight (scanHeight (content ?msg)))
      = Some \<lparr>height = 480, hash = ''S''\<rparr>"
    by (simp add: example_service_answers example_message_fields)
  have h3: "height \<lparr>height = 515, hash = ''T''\<rparr> \<noteq> scanHeight (content ?msg)"
    by (simp add: example_message_fields)
  have h4: "postSync ?svc (syncUrl example_config) [hash \<lparr>height = 480, hash = ''S''\<rparr>]
      (blockCount example_config) = Some ?batch"
    by (simp add: example_service_answers)
  have h5: "walletOutputs (scan_batch example_matcher (wallet (content ?msg)) ?batch) \<noteq> []"
    by (simp add: example_message_fields example_scan_120)
  have h6: "totalAmount (scan_batch example_matcher (wallet (content ?msg)) ?batch)
      \<ge> request_amount (request (content ?msg))"
    by (simp add: example_message_fields example_scan_120)
  have h7: "js_sub (height \<lparr>height = 515, hash = ''T''\<rparr>)
        (fundsFoundInBlock (scan_batch example_matcher (wallet (content ?msg)) ?batch))
      \<ge> confirmationsRequired example_config"
    by (simp add: example_message_fields example_scan_120 cfg js_sub_small)
  note run = funded_branch [OF h1 h2 h3 h4 h5 h6 h7, of example_runtime]
  show ?thesis
    unfolding run
    by (simp add: example_message_fields example_scan_120 cfg js_sub_small)
       (simp add: example_message_def example_wallet_def example_runtime_def)
qed

text \<open>
  C3. With outputs found, a total below the requested amount, the top block beyond
  \<open>maxHeight\<close> and enough confirmations (the difference of the two heights, as the code
  computes it, is at least those required), the run is the three requests, one response of status
  206 published to the complete queue of the public channel, the payload with the outputs as
  its \<open>funds\<close> published to the send queue of the private channel, one line logged, and the
  acknowledgement.
\<close>

theorem partially_funded_timeout_branch:
  assumes "getHeader svc (blockHeaderUrl cfg) Top = Some topBlock"
    and "getHeader svc (blockHeaderUrl cfg) (AtHeight (scanHeight (content message))) = Some startBlock"
    and "height topBlock \<noteq> scanHeight (content message)"
    and "postSync svc (syncUrl cfg) [hash startBlock] (blockCount cfg) = Some syncData"
    and "walletOutputs (scan_batch matcher (wallet (content message)) syncData) \<noteq> []"
    and "totalAmount (scan_batch matcher (wallet (content message)) syncData)
           < request_amount (request (content message))"
    and "height topBlock > maxHeight (content message)"
    and "js_sub (height topBlock)
             (fundsFoundInBlock (scan_batch matcher (wallet (content message)) syncData))
           \<ge> confirmationsRequired cfg"
  shows "handler cfg rt svc matcher (Some message) =
    [HttpGet (blockHeaderUrl cfg) Top,
     HttpGet (blockHeaderUrl cfg) (AtHeight (scanHeight (content message))),
     HttpPost (syncUrl cfg) [hash startBlock] (blockCount cfg),
     SendToQueue Public (complete (queues cfg))
       (ResponseJson \<lparr>r_address = address (wallet (content message)), status = 206,
                      r_request = request (content message)\<rparr>),
     SendToQueue Private (send (queues cfg))
       (PayloadJson ((content message)
          \<lparr>funds := Some (walletOutputs (scan_batch matcher (wallet (content message)) syncData))\<rparr>)),
     ConsoleLog (utcNow rt)
       (InfoForwarding (workerId rt)
          (totalAmount (scan_batch matcher (wallet (content message)) syncData))
          (address (wallet (content message)))),
     Ack message]"
  using assms(5-8) unfolding handler_evaluates [OF assms(1-4)]
  by (simp add: decide_def confirmations_def log_def Let_def)

text \<open>
  The fourth scenario of the specification: 50 found for a request of 100, in block 490, the
  deadline 500 and the head at 505.
\<close>

theorem partially_funded_timeout_branch_witness:
  "walletOutputs (scan_batch example_matcher example_wallet [example_block 490 [50]]) \<noteq> []
   \<and> totalAmount (scan_batch example_matcher example_wallet [example_block 490 [50]]) < 100
   \<and> maxHeight (content (example_message 500)) < 505
   \<and> js_sub 505 (fundsFoundInBlock (scan_batch example_matcher example_wallet [example_block 490 [50]]))
        \<ge> confirmationsRequired example_config
   \<and> handler example_config example_runtime (example_service 505 [example_block 490 [50]])
        example_matcher (Some (example_message 500)) =
      [HttpGet ''http://node/header/'' Top,
       HttpGet ''http://node/header/'' (AtHeight 480),
       HttpPost ''http://node/sync'' [''S''] 101,
       SendToQueue Public ''complete''
         (ResponseJson \<lparr>r_address = ''TRTLw'', status = 206, r_request = \<lparr>request_amount = 100\<rparr>\<rparr>),
       SendToQueue Private ''send''
         (PayloadJson \<lparr>wallet = example_wallet, request = \<lparr>request_amount = 100\<rparr>,
            scanHeight = 480, maxHeight = 500,
            funds = Some [\<lparr>index = 0, globalIndex = 0, amount = 50, key = ''SP''\<rparr>]\<rparr>),
       ConsoleLog ''Thu, 01 Nov 2018 12:00:00 GMT'' (InfoForwarding 1 50 ''TRTLw''),
       Ack (example_message 500)]"
proof -
  let ?msg = "example_message 500"
  let ?st = "scan_batch example_matcher (wallet (content ?msg)) [example_block 490 [50]]"
  have h3: "height \<lparr>height = 505, hash = ''T''\<rparr> \<noteq> scanHeight (content ?msg)"
    by (simp add: example_message_fields)
  have h5: "walletOutputs ?st \<noteq> []"
    by (simp add: example_message_fields example_scan_50)
  have h6: "totalAmount ?st < request_amount (request (content ?msg))"
    by (simp add: example_message_fields example_scan_50)
  have h7: "height \<lparr>height = 505, hash = ''T''\<rparr> > maxHeight (content ?msg)"
    by (simp add: example_message_fields)
  have h8: "js_sub (height \<lparr>height = 505, hash = ''T''\<rparr>) (fundsFoundInBlock ?st)
      \<ge> confirmationsRequired example_config"
    by (simp add: example_message_fields example_scan_50 example_config_fields js_sub_small)
  note run = partially_funded_timeout_branch
    [OF example_fetches(1) example_fetches(2) h3 example_fetches(3) h5 h6 h7 h8, of example_runtime]
  show ?thesis
    unfolding run
    by (simp add: example_message_fields example_scan_50 example_config_fields js_sub_small)
       (simp add: example_message_def example_wallet_def example_runtime_def)
qed

text \<open>
  C4. With no output found and the top block beyond \<open>maxHeight\<close>, the run is the three
  requests, one response of status 408 published to the complete queue of the public channel,
  one line logged, and the acknowledgement: nothing goes to the send queue.
\<close>

theorem timed_out_branch:
  assumes "getHeader svc (blockHeaderUrl cfg) Top = Some topBlock"
    and "getHeader svc (blockHeaderUrl cfg) (AtHeight (scanHeight (content message))) = Some startBlock"
    and "height topBlock \<noteq> scanHeight (content message)"
    and "postSync svc (syncUrl cfg) [hash startBlock] (blockCount cfg) = Some syncData"
    and "walletOutputs (scan_batch matcher (wallet (content message)) syncData) = []"
    and "height topBlock > maxHeight (content message)"
  shows "handler cfg rt svc matcher (Some message) =
    [HttpGet (blockHeaderUrl cfg) Top,
     HttpGet (blockHeaderUrl cfg) (AtHeight (scanHeight (content message))),
     HttpPost (syncUrl cfg) [hash startBlock] (blockCount cfg),
     SendToQueue Public (complete (queues cfg))
       (ResponseJson \<lparr>r_address = address (wallet (content message)), status = 408,
                      r_request = request (content message)\<rparr>),
     ConsoleLog (utcNow rt) (InfoTimedOut (workerId rt) (address (wallet (content message)))),
     Ack message]"
  using assms(5-6) unfolding handler_evaluates [OF assms(1-4)]
  by (simp add: decide_def log_def Let_def)

text \<open>
  The fifth scenario of the specification: nothing found, the deadline 500, the head at 505.
\<close>

theorem timed_out_branch_witness:
  "walletOutputs (scan_batch example_matcher example_wallet [example_block 490 []]) = []
   \<and> maxHeight (content (example_message 500)) < 505
   \<and> handler example_config example_runtime (example_service 505 [example_block 490 []])
        example_matcher (Some (example_message 500)) =
      [HttpGet ''http://node/header/'' Top,
       HttpGet ''http://node/header/'' (AtHeight 480),
       HttpPost ''http://node/sync'' [''S''] 101,
       SendToQueue Public ''complete''
         (ResponseJson \<lparr>r_address = ''TRTLw'', status = 408, r_request = \<lparr>request_amount = 100\<rparr>\<rparr>),
       ConsoleLog ''Thu, 01 Nov 2018 12:00:00 GMT'' (InfoTimedOut 1 ''TRTLw''),
       Ack (example_message 500)]"
proof -
  let ?msg = "example_message 500"
  let ?st = "scan_batch example_matcher (wallet (content ?msg)) [example_block 490 []]"
  have h3: "height \<lparr>height = 505, hash = ''T''\<rparr> \<noteq> scanHeight (content ?msg)"
    by (simp add: example_message_fields)
  have h5: "walletOutputs ?st = []"
    by (simp add: example_message_fields example_scan_none)
  have h6: "height \<lparr>height = 505, hash = ''T''\<rparr> > maxHeight (content ?msg)"
    by (simp add: example_message_fields)
  note run = timed_out_branch
    [OF example_fetches(1) example_fetches(2) h3 example_fetches(3) h5 h6, of example_runtime]
  show ?thesis
    unfolding run
    by (simp add: example_message_fields example_scan_none example_config_fields)
       (simp add: example_message_def example_wallet_def example_runtime_def)
qed

subsection \<open>Exactly one branch\<close>

lemma decide_paths:
  "path_condition Funded cfg (content message) topBlock st \<Longrightarrow>
     bus_effects (decide cfg rt message topBlock st) = documented_outcome Funded cfg message st"
  "path_condition PendingConfirmation cfg (content message) topBlock st \<Longrightarrow>
     bus_effects (decide cfg rt message topBlock st) = documented_outcome PendingConfirmation cfg message st"
  "path_condition PartiallyFundedTimeout cfg (content message) topBlock st \<Longrightarrow>
     bus_effects (decide cfg rt message topBlock st) = documented_outcome PartiallyFundedTimeout cfg message st"
  "path_condition PendingMore cfg (content message) topBlock st \<Longrightarrow>
     bus_effects (decide cfg rt message topBlock st) = documented_outcome PendingMore cfg message st"
  "path_condition TimedOut cfg (content message) topBlock st \<Longrightarrow>
     bus_effects (decide cfg rt message topBlock st) = documented_outcome TimedOut cfg message st"
  "path_condition PendingNone cfg (content message) topBlock st \<Longrightarrow>
     bus_effects (decide cfg rt message topBlock st) = documented_outcome PendingNone cfg message st"
  by (auto simp add: decide_def bus_effects_def log_def Let_def)

lemma decide_outcome:
  "path_condition b cfg (content message) topBlock st \<Longrightarrow>
     bus_effects (decide cfg rt message topBlock st) = documented_outcome b cfg message st"
  by (cases b) (simp_all only: decide_paths)

lemma path_condition_unique:
  "\<exists>!b. path_condition b cfg p topBlock st"
proof -
  have ex: "\<exists>b. path_condition b cfg p topBlock st"
  proof (cases "walletOutputs st \<noteq> []")
    case True
    then have "path_condition Funded cfg p topBlock st \<or> path_condition PendingConfirmation cfg p topBlock st
      \<or> path_condition PartiallyFundedTimeout cfg p topBlock st \<or> path_condition PendingMore cfg p topBlock st"
      by auto
    then show ?thesis by blast
  next
    case False
    then have "path_condition TimedOut cfg p topBlock st \<or> path_condition PendingNone cfg p topBlock st"
      by auto
    then show ?thesis by blast
  qed
  have uniq: "b = b'" if "path_condition b cfg p topBlock st" "path_condition b' cfg p topBlock st" for b b'
    using that by (cases b; cases b') auto
  from ex uniq show ?thesis by blast
qed

lemma path_condition_stated:
  "b \<noteq> PendingMore \<Longrightarrow> path_condition b cfg p topBlock st = stated_precondition b cfg p topBlock st"
  by (cases b) (auto simp add: confirmations_def)

text \<open>
  C1, as stated, fails: the six preconditions of the specification do not cover every case.
  With 50 found for a request of 100 in block 500, the deadline 500 passed at the head 505 and
  five confirmations of the ten required, none of the six holds; the handler
  negative-acknowledges and publishes nothing.
\<close>

theorem stated_preconditions_not_exhaustive:
  "\<not> stated_precondition Funded example_config (content (example_message 500))
        \<lparr>height = 505, hash = ''T''\<rparr> (scan_batch example_matcher example_wallet [example_block 500 [50]])
   \<and> \<not> stated_precondition PendingConfirmation example_config (content (example_message 500))
        \<lparr>height = 505, hash = ''T''\<rparr> (scan_batch example_matcher example_wallet [example_block 500 [50]])
   \<and> \<not> stated_precondition PartiallyFundedTimeout example_config (content (example_message 500))
        \<lparr>height = 505, hash = ''T''\<rparr> (scan_batch example_matcher example_wallet [example_block 500 [50]])
   \<and> \<not> stated_precondition PendingMore example_config (content (example_message 500))
        \<lparr>height = 505, hash = ''T''\<rparr> (scan_batch example_matcher example_wallet [example_block 500 [50]])
   \<and> \<not> stated_precondition TimedOut example_config (content (example_message 500))
        \<lparr>height = 505, hash = ''T''\<rparr> (scan_batch example_matcher example_wallet [example_block 500 [50]])
   \<and> \<not> stated_precondition PendingNone example_config (content (example_message 500))
        \<lparr>height = 505, hash = ''T''\<rparr> (scan_batch example_matcher example_wallet [example_block 500 [50]])
   \<and> handler example_config example_runtime (example_service 505 [example_block 500 [50]])
        example_matcher (Some (example_message 500)) =
      [HttpGet ''http://node/header/'' Top,
       HttpGet ''http://node/header/'' (AtHeight 480),
       HttpPost ''http://node/sync'' [''S''] 101,
       ConsoleLog ''Thu, 01 Nov 2018 12:00:00 GMT'' (InfoLookForMore 1 50 ''TRTLw''),
       Nack (example_message 500)]"
proof -
  have h3: "height \<lparr>height = 505, hash = ''T''\<rparr> \<noteq> scanHeight (content (example_message 500))"
    by (simp add: example_message_fields)
  note run = handler_evaluates [OF example_fetches(1) example_fetches(2) h3 example_fetches(3)]
  show ?thesis
    unfolding run
    by (simp add: example_message_fields example_scan_50 example_config_fields
          decide_def confirmations_def log_def Let_def js_sub_small)
       (simp add: example_wallet_def example_runtime_def)
qed

text \<open>
  C1, amended. For a delivery whose three requests are answered, with the head not at the scan
  height, exactly one of the six exits of the decision is taken; what the broker sees of the
  run is what the specification documents for that branch (the terminal branches publish their
  messages and acknowledge once, the others negative-acknowledge and publish nothing); the
  condition of every branch but PendingMore is the stated one; and PendingMore is taken when
  outputs were found, the total is below the requested amount, and the deadline has not passed
  or the confirmations are insufficient.
\<close>

theorem one_branch_fires:
  assumes "getHeader svc (blockHeaderUrl cfg) Top = Some topBlock"
    and "getHeader svc (blockHeaderUrl cfg) (AtHeight (scanHeight (content message))) = Some startBlock"
    and "height topBlock \<noteq> scanHeight (content message)"
    and "postSync svc (syncUrl cfg) [hash startBlock] (blockCount cfg) = Some syncData"
  shows "(\<exists>!b. path_condition b cfg (content message) topBlock
                 (scan_batch matcher (wallet (content message)) syncData))
    \<and> (\<forall>b. path_condition b cfg (content message) topBlock
               (scan_batch matcher (wallet (content message)) syncData)
          \<longrightarrow> bus_effects (handler cfg rt svc matcher (Some message))
              = documented_outcome b cfg message
                  (scan_batch matcher (wallet (content message)) syncData))
    \<and> (\<forall>b. b \<noteq> PendingMore \<longrightarrow>
          path_condition b cfg (content message) topBlock
            (scan_batch matcher (wallet (content message)) syncData)
          = stated_precondition b cfg (content message) topBlock
              (scan_batch matcher (wallet (content message)) syncData))
    \<and> path_condition PendingMore cfg (content message) topBlock
         (scan_batch matcher (wallet (content message)) syncData)
      = (walletOutputs (scan_batch matcher (wallet (content message)) syncData) \<noteq> []
         \<and> totalAmount (scan_batch matcher (wallet (content message)) syncData)
             < request_amount (request (content message))
         \<and> (height topBlock \<le> maxHeight (content message)
            \<or> js_sub (height topBlock)
                 (fundsFoundInBlock (scan_batch matcher (wallet (content message)) syncData))
                < confirmationsRequired cfg))"
proof -
  let ?st = "scan_batch matcher (wallet (content message)) syncData"
  have run: "bus_effects (handler cfg rt svc matcher (Some message))
      = bus_effects (decide cfg rt message topBlock ?st)"
    unfolding handler_evaluates [OF assms] by (simp add: bus_effects_def)
  have a: "\<exists>!b. path_condition b cfg (content message) topBlock ?st"
    by (rule path_condition_unique)
  have b: "\<forall>b. path_condition b cfg (content message) topBlock ?st
      \<longrightarrow> bus_effects (handler cfg rt svc matcher (Some message)) = documented_outcome b cfg message ?st"
    unfolding run by (simp add: decide_outcome)
  have c: "\<forall>b. b \<noteq> PendingMore \<longrightarrow>
      path_condition b cfg (content message) topBlock ?st
      = stated_precondition b cfg (content message) topBlock ?st"
    by (simp add: path_condition_stated)
  have d: "path_condition PendingMore cfg (content message) topBlock ?st
      = (walletOutputs ?st \<noteq> [] \<and> totalAmount ?st < request_amount (request (content message))
         \<and> (height topBlock \<le> maxHeight (content message)
            \<or> js_sub (height topBlock) (fundsFoundInBlock ?st) < confirmationsRequired cfg))"
    by (auto simp add: confirmations_def)
  from a b c d show ?thesis by blast
qed

text \<open>
  The amended theorem on the delivery that the stated preconditions leave out.
\<close>

theorem one_branch_fires_witness:
  "height \<lparr>height = 505, hash = ''T''\<rparr> \<noteq> scanHeight (content (example_message 500))
   \<and> path_condition PendingMore example_config (content (example_message 500))
        \<lparr>height = 505, hash = ''T''\<rparr>
        (scan_batch example_matcher (wallet (content (example_message 500))) [example_block 500 [50]])
   \<and> bus_effects (handler example_config example_runtime (example_service 505 [example_block 500 [50]])
        example_matcher (Some (example_message 500))) = [Nack (example_message 500)]"
proof -
  let ?msg = "example_message 500"
  let ?top = "\<lparr>height = 505, hash = ''T''\<rparr>"
  let ?st = "scan_batch example_matcher (wallet (content ?msg)) [example_block 500 [50]]"
  have h3: "height ?top \<noteq> scanHeight (content ?msg)"
    by (simp add: example_message_fields)
  have path: "path_condition PendingMore example_config (content ?msg) ?top ?st"
    by (simp add: example_message_fields example_scan_50 example_config_fields confirmations_def
          js_sub_small)
  note all = one_branch_fires
    [where svc = "example_service 505 [example_block 500 [50]]" and cfg = example_config
       and message = ?msg and topBlock = ?top and startBlock = "\<lparr>height = 480, hash = ''S''\<rparr>"
       and syncData = "[example_block 500 [50]]" and matcher = example_matcher
       and rt = example_runtime,
     OF example_fetches(1) example_fetches(2) h3 example_fetches(3)]
  from all have "bus_effects (handler example_config example_runtime
        (example_service 505 [example_block 500 [50]]) example_matcher (Some ?msg))
      = documented_outcome PendingMore example_config ?msg ?st"
    using path by blast
  then show ?thesis using h3 path by simp
qed

section \<open>What is published\<close>

lemma decide_emissions:
  "emissions (decide cfg rt message topBlock st) =
     (if path_condition Funded cfg (content message) topBlock st then
        [(Public, complete (queues cfg),
          ResponseJson \<lparr>r_address = address (wallet (content message)), status = 100,
                         r_request = request (content message)\<rparr>),
         (Private, send (queues cfg),
          PayloadJson ((content message)\<lparr>funds := Some (walletOutputs st)\<rparr>))]
      else if path_condition PartiallyFundedTimeout cfg (content message) topBlock st then
        [(Public, complete (queues cfg),
          ResponseJson \<lparr>r_address = address (wallet (content message)), status = 206,
                         r_request = request (content message)\<rparr>),
         (Private, send (queues cfg),
          PayloadJson ((content message)\<lparr>funds := Some (walletOutputs st)\<rparr>))]
      else if path_condition TimedOut cfg (content message) topBlock st then
        [(Public, complete (queues cfg),
          ResponseJson \<lparr>r_address = address (wallet (content message)), status = 408,
                         r_request = request (content message)\<rparr>)]
      else [])"
  by (simp add: decide_def emissions_def log_def Let_def List.map_filter_simps)

lemma handler_emissions:
  assumes "getHeader svc (blockHeaderUrl cfg) Top = Some topBlock"
    and "getHeader svc (blockHeaderUrl cfg) (AtHeight (scanHeight (content message))) = Some startBlock"
    and "height topBlock \<noteq> scanHeight (content message)"
    and "postSync svc (syncUrl cfg) [hash startBlock] (blockCount cfg) = Some syncData"
  shows "emissions (handler cfg rt svc matcher (Some message)) =
    emissions (decide cfg rt message topBlock (scan_batch matcher (wallet (content message)) syncData))"
  unfolding handler_evaluates [OF assms]
  by (simp add: emissions_def List.map_filter_simps)

text \<open>
  C9. In the Funded and PartiallyFundedTimeout branches the handler publishes a response to the
  complete queue and then, to the send queue, the consumed payload with its \<open>funds\<close> set to
  the outputs found and nothing else changed: wallet, request, scan height and deadline are
  those consumed. Every response published on the public channel, in whatever branch, goes
  to the complete queue with the address of the payload's wallet and the payload's request.
\<close>

theorem published_messages_frame:
  assumes "getHeader svc (blockHeaderUrl cfg) Top = Some topBlock"
    and "getHeader svc (blockHeaderUrl cfg) (AtHeight (scanHeight (content message))) = Some startBlock"
    and "height topBlock \<noteq> scanHeight (content message)"
    and "postSync svc (syncUrl cfg) [hash startBlock] (blockCount cfg) = Some syncData"
  shows "(path_condition Funded cfg (content message) topBlock
            (scan_batch matcher (wallet (content message)) syncData)
          \<or> path_condition PartiallyFundedTimeout cfg (content message) topBlock
            (scan_batch matcher (wallet (content message)) syncData)
        \<longrightarrow> (\<exists>r p'. emissions (handler cfg rt svc matcher (Some message)) =
                [(Public, complete (queues cfg), ResponseJson r),
                 (Private, send (queues cfg), PayloadJson p')]
              \<and> p' = (content message)
                   \<lparr>funds := Some (walletOutputs (scan_batch matcher (wallet (content message)) syncData))\<rparr>
              \<and> wallet p' = wallet (content message)
              \<and> request p' = request (content message)
              \<and> scanHeight p' = scanHeight (content message)
              \<and> maxHeight p' = maxHeight (content message)
              \<and> funds p' = Some (walletOutputs (scan_batch matcher (wallet (content message)) syncData))
              \<and> r_address r = address (wallet (content message))
              \<and> r_request r = request (content message)))
    \<and> (\<forall>q body. (Public, q, body) \<in> set (emissions (handler cfg rt svc matcher (Some message)))
          \<longrightarrow> q = complete (queues cfg)
            \<and> (\<exists>r. body = ResponseJson r
                  \<and> r_address r = address (wallet (content message))
                  \<and> r_request r = request (content message)))"
  unfolding handler_emissions [OF assms] decide_emissions
  by auto

text \<open>
  The fourth scenario again: the forwarded payload is the consumed one with the funds.
\<close>

theorem published_messages_frame_witness:
  "path_condition PartiallyFundedTimeout example_config (content (example_message 500))
      \<lparr>height = 505, hash = ''T''\<rparr>
      (scan_batch example_matcher (wallet (content (example_message 500))) [example_block 490 [50]])
   \<and> (\<exists>r p'. emissions (handler example_config example_runtime
                 (example_service 505 [example_block 490 [50]]) example_matcher
                 (Some (example_message 500))) =
           [(Public, ''complete'', ResponseJson r), (Private, ''send'', PayloadJson p')]
         \<and> p' = \<lparr>wallet = example_wallet, request = \<lparr>request_amount = 100\<rparr>,
                  scanHeight = 480, maxHeight = 500,
                  funds = Some [\<lparr>index = 0, globalIndex = 0, amount = 50, key = ''SP''\<rparr>]\<rparr>
         \<and> r_address r = ''TRTLw'' \<and> r_request r = \<lparr>request_amount = 100\<rparr>)"
proof -
  let ?msg = "example_message 500"
  let ?top = "\<lparr>height = 505, hash = ''T''\<rparr>"
  let ?st = "scan_batch example_matcher (wallet (content ?msg)) [example_block 490 [50]]"
  have h3: "height ?top \<noteq> scanHeight (content ?msg)"
    by (simp add: example_message_fields)
  have path: "path_condition PartiallyFundedTimeout example_config (content ?msg) ?top ?st"
    by (simp add: example_message_fields example_scan_50 example_config_fields confirmations_def
          js_sub_small)
  then have "path_condition Funded example_config (content ?msg) ?top ?st
      \<or> path_condition PartiallyFundedTimeout example_config (content ?msg) ?top ?st"
    by (rule disjI2)
  from published_messages_frame
    [OF example_fetches(1) example_fetches(2) h3 example_fetches(3), THEN conjunct1, rule_format,
     OF this, of example_runtime]
  obtain r p' where e: "emissions (handler example_config example_runtime
        (example_service 505 [example_block 490 [50]]) example_matcher (Some ?msg)) =
        [(Public, complete (queues example_config), ResponseJson r),
         (Private, send (queues example_config), PayloadJson p')]"
    and p': "p' = (content ?msg)\<lparr>funds := Some (walletOutputs ?st)\<rparr>"
    and r: "r_address r = address (wallet (content ?msg))" "r_request r = request (content ?msg)"
    by blast
  have "p' = \<lparr>wallet = example_wallet, request = \<lparr>request_amount = 100\<rparr>,
                  scanHeight = 480, maxHeight = 500,
                  funds = Some [\<lparr>index = 0, globalIndex = 0, amount = 50, key = ''SP''\<rparr>]\<rparr>"
    unfolding p' by (simp add: example_message_fields example_scan_50)
  moreover have "r_address r = ''TRTLw''" "r_request r = \<lparr>request_amount = 100\<rparr>"
    using r by (simp_all add: example_message_fields example_wallet_def)
  ultimately show ?thesis
    using path e by (simp add: example_config_fields)
qed

section \<open>No hidden state\<close>

lemma decide_independent:
  "emissions (decide cfg rt1 \<lparr>deliveryTag = t1, content = p\<rparr> topBlock st)
     = emissions (decide cfg rt2 \<lparr>deliveryTag = t2, content = p\<rparr> topBlock st)"
  "settlements (decide cfg rt1 \<lparr>deliveryTag = t1, content = p\<rparr> topBlock st)
     = settlements (decide cfg rt2 \<lparr>deliveryTag = t2, content = p\<rparr> topBlock st)"
  "requests (decide cfg rt1 \<lparr>deliveryTag = t1, content = p\<rparr> topBlock st)
     = requests (decide cfg rt2 \<lparr>deliveryTag = t2, content = p\<rparr> topBlock st)"
  by (simp_all add: decide_def emissions_def settlements_def requests_def log_def Let_def
        List.map_filter_simps)

text \<open>
  C8. For a payload, a configuration, a blockchain service and a matcher, two runs of the
  handler publish the same messages to the same queues, settle the delivery the same way and
  send the same requests, whatever the worker, the clock and the delivery tag of each run:
  only the logged lines can differ.
\<close>

theorem handler_deterministic:
  "emissions (handler cfg rt1 svc matcher (Some \<lparr>deliveryTag = t1, content = p\<rparr>))
     = emissions (handler cfg rt2 svc matcher (Some \<lparr>deliveryTag = t2, content = p\<rparr>))
   \<and> settlements (handler cfg rt1 svc matcher (Some \<lparr>deliveryTag = t1, content = p\<rparr>))
     = settlements (handler cfg rt2 svc matcher (Some \<lparr>deliveryTag = t2, content = p\<rparr>))
   \<and> requests (handler cfg rt1 svc matcher (Some \<lparr>deliveryTag = t1, content = p\<rparr>))
     = requests (handler cfg rt2 svc matcher (Some \<lparr>deliveryTag = t2, content = p\<rparr>))"
proof (cases "getHeader svc (blockHeaderUrl cfg) Top")
  case None
  then show ?thesis
    by (simp add: handler_def emissions_def settlements_def requests_def log_def
          List.map_filter_simps)
next
  case top: (Some topBlock)
  show ?thesis
  proof (cases "getHeader svc (blockHeaderUrl cfg) (AtHeight (scanHeight p))")
    case None
    with top show ?thesis
      by (simp add: handler_def emissions_def settlements_def requests_def log_def
            List.map_filter_simps)
  next
    case start: (Some startBlock)
    show ?thesis
    proof (cases "height topBlock = scanHeight p")
      case True
      with top start show ?thesis
        by (simp add: handler_def emissions_def settlements_def requests_def
              List.map_filter_simps)
    next
      case False
      show ?thesis
      proof (cases "postSync svc (syncUrl cfg) [hash startBlock] (blockCount cfg)")
        case None
        with top start False show ?thesis
          by (simp add: handler_def emissions_def settlements_def requests_def log_def
                List.map_filter_simps)
      next
        case (Some syncData)
        have run: "handler cfg rt svc matcher (Some \<lparr>deliveryTag = t, content = p\<rparr>) =
            [HttpGet (blockHeaderUrl cfg) Top,
             HttpGet (blockHeaderUrl cfg) (AtHeight (scanHeight p)),
             HttpPost (syncUrl cfg) [hash startBlock] (blockCount cfg)]
            @ decide cfg rt \<lparr>deliveryTag = t, content = p\<rparr> topBlock
                (scan_batch matcher (wallet p) syncData)" for rt t
          using handler_evaluates [of svc cfg topBlock "\<lparr>deliveryTag = t, content = p\<rparr>"
              startBlock syncData rt matcher] top start False Some
          by simp
        have pre: "emissions (xs @ ys) = emissions xs @ emissions ys"
          "settlements (xs @ ys) = settlements xs @ settlements ys"
          "requests (xs @ ys) = requests xs @ requests ys"
          for xs ys :: "('a, 'b) effect list"
          by (simp_all add: emissions_def settlements_def requests_def List.map_filter_def)
        show ?thesis
          unfolding run pre
          using decide_independent [of cfg rt1 t1 p topBlock _ rt2 t2]
          by simp
      qed
    qed
  qed
qed

end
